theory Spec2Isabelle
  imports Main "HOL-Library.Multiset" "HOL-Library.Sublist"
begin

section \<open>The relational store\<close>

text \<open>
  The backend keeps its data in four MySQL tables, documented in the header comment of
  \<^verbatim>\<open>backend/models/pedidos.model.js\<close> and in the README: \<^verbatim>\<open>clientes\<close>,
  \<^verbatim>\<open>productos\<close>, \<^verbatim>\<open>pedidos\<close> (order headers) and \<^verbatim>\<open>pedidos_productos\<close>
  (order lines). Every model function issues its statements through \<^verbatim>\<open>pool.query\<close>,
  one autocommitted statement per call. JavaScript numbers that hold identifiers and
  quantities are modelled as unbounded \<open>int\<close>s.

  The two descriptions of \<^verbatim>\<open>pedidos_productos\<close> differ: the model file gives the table
  an \<^verbatim>\<open>AUTO_INCREMENT\<close> column \<^verbatim>\<open>id\<close>, the README a composite primary key. The code
  reads \<^verbatim>\<open>result.insertId\<close> after the insert and selects \<^verbatim>\<open>pp.id\<close>, which only the
  first layout supports; that layout is the one modelled, so an order may hold two lines
  for the same product.

  Column prefixes follow the SQL aliases of the source (\<open>p\<close>, \<open>pp\<close>, \<open>pr\<close>).
\<close>

record cliente =
  cl_id :: int
  cl_nombre :: string
  cl_email :: string
  cl_password :: string

record producto =
  pr_id :: int
  pr_nombre :: string
  pr_precio :: int
  pr_stock :: int

record fila_pedido =
  p_id :: int
  p_cliente_id :: int
  p_estado :: string
  p_fecha :: int

record linea =
  pp_id :: int
  pp_pedido_id :: int
  pp_producto_id :: int
  pp_cantidad :: int

text \<open>
  The store: the four tables in insertion order, the two \<^verbatim>\<open>AUTO_INCREMENT\<close> counters
  the code reads back through \<^verbatim>\<open>result.insertId\<close>, and the value of
  \<^verbatim>\<open>CURRENT_TIMESTAMP\<close> that the column default of \<^verbatim>\<open>pedidos.fecha\<close> takes.
\<close>

record bd =
  tabla_clientes :: "cliente list"
  tabla_productos :: "producto list"
  tabla_pedidos :: "fila_pedido list"
  tabla_pedidos_productos :: "linea list"
  auto_pedidos :: int
  auto_lineas :: int
  ahora :: int

text \<open>
  A statement is rejected by the store when it breaks one of the documented foreign keys
  (\<^verbatim>\<open>pedidos.cliente_id\<close>, \<^verbatim>\<open>pedidos_productos.pedido_id\<close>,
  \<^verbatim>\<open>pedidos_productos.producto_id\<close>); \<^verbatim>\<open>pool.query\<close> then rejects its promise with
  MySQL's error, which carries the name of the offending column here.
\<close>

datatype error_bd = ER_NO_REFERENCED_ROW_2 string

definition existe_cliente :: "bd \<Rightarrow> int \<Rightarrow> bool" where
  "existe_cliente db c = (c \<in> cl_id ` set (tabla_clientes db))"

definition existe_producto :: "bd \<Rightarrow> int \<Rightarrow> bool" where
  "existe_producto db i = (i \<in> pr_id ` set (tabla_productos db))"

definition existe_pedido :: "bd \<Rightarrow> int \<Rightarrow> bool" where
  "existe_pedido db i = (i \<in> p_id ` set (tabla_pedidos db))"

section \<open>Order model: \<^verbatim>\<open>pedidos.model.js\<close>\<close>

text \<open>The objects the model functions return.\<close>

record cabecera =
  cab_id :: int
  cab_cliente_id :: int
  cab_estado :: string

record producto_pedido =
  producto_id :: int
  cantidad :: int

record pedido_completo =
  r_id :: int
  r_cliente_id :: int
  r_estado :: string
  r_productos :: "linea list"
  r_total_productos :: int

text \<open>
  \<^verbatim>\<open>crearPedido(clienteId)\<close>: one \<^verbatim>\<open>INSERT INTO pedidos (cliente_id)\<close>; the status and
  the date take their column defaults. The returned status is the literal of the source.
\<close>

definition crearPedido :: "bd \<Rightarrow> int \<Rightarrow> (error_bd + cabecera) \<times> bd" where
  "crearPedido db clienteId =
     (if existe_cliente db clienteId
      then (Inr \<lparr>cab_id = auto_pedidos db, cab_cliente_id = clienteId,
                 cab_estado = ''pendiente''\<rparr>,
            db\<lparr>tabla_pedidos := tabla_pedidos db @
                   [\<lparr>p_id = auto_pedidos db, p_cliente_id = clienteId,
                     p_estado = ''pendiente'', p_fecha = ahora db\<rparr>],
               auto_pedidos := auto_pedidos db + 1\<rparr>)
      else (Inl (ER_NO_REFERENCED_ROW_2 ''cliente_id''), db))"

text \<open>
  \<^verbatim>\<open>agregarProductoAPedido({ pedidoId, productoId, cantidad })\<close>: one
  \<^verbatim>\<open>INSERT INTO pedidos_productos\<close>. The quantity is stored as it arrives.
\<close>

definition agregarProductoAPedido ::
    "bd \<Rightarrow> int \<Rightarrow> int \<Rightarrow> int \<Rightarrow> (error_bd + linea) \<times> bd" where
  "agregarProductoAPedido db pedidoId productoId cant =
     (if \<not> existe_pedido db pedidoId
      then (Inl (ER_NO_REFERENCED_ROW_2 ''pedido_id''), db)
      else if \<not> existe_producto db productoId
      then (Inl (ER_NO_REFERENCED_ROW_2 ''producto_id''), db)
      else (Inr \<lparr>pp_id = auto_lineas db, pp_pedido_id = pedidoId,
                 pp_producto_id = productoId, pp_cantidad = cant\<rparr>,
            db\<lparr>tabla_pedidos_productos := tabla_pedidos_productos db @
                   [\<lparr>pp_id = auto_lineas db, pp_pedido_id = pedidoId,
                     pp_producto_id = productoId, pp_cantidad = cant\<rparr>],
               auto_lineas := auto_lineas db + 1\<rparr>))"

text \<open>
  The \<^verbatim>\<open>for (const producto of productos)\<close> loop of \<^verbatim>\<open>crear\<close>, with the array
  \<^verbatim>\<open>productosAgregados\<close> as accumulator. A rejected insert leaves the loop at once, as
  the exception does; the store keeps what the earlier statements wrote.
\<close>

fun agregar_lineas ::
    "bd \<Rightarrow> int \<Rightarrow> producto_pedido list \<Rightarrow> linea list \<Rightarrow> (error_bd + linea list) \<times> bd" where
  "agregar_lineas db pedidoId [] productosAgregados = (Inr productosAgregados, db)"
| "agregar_lineas db pedidoId (p # ps) productosAgregados =
     (case agregarProductoAPedido db pedidoId (producto_id p) (cantidad p) of
        (Inl e, db') \<Rightarrow> (Inl e, db')
      | (Inr lineaPedido, db') \<Rightarrow>
          agregar_lineas db' pedidoId ps (productosAgregados @ [lineaPedido]))"

text \<open>
  \<^verbatim>\<open>crear({ cliente_id, productos = [] })\<close>: header, then lines, then the sum of the
  requested quantities. The \<^verbatim>\<open>catch\<close> block logs and rethrows, so an error of either
  step is the result, together with the store as the statements left it.
\<close>

definition crear :: "bd \<Rightarrow> int \<Rightarrow> producto_pedido list \<Rightarrow> (error_bd + pedido_completo) \<times> bd" where
  "crear db cliente_id productos =
     (case crearPedido db cliente_id of
        (Inl e, db1) \<Rightarrow> (Inl e, db1)
      | (Inr pedido, db1) \<Rightarrow>
          (case agregar_lineas db1 (cab_id pedido) productos [] of
             (Inl e, db2) \<Rightarrow> (Inl e, db2)
           | (Inr productosAgregados, db2) \<Rightarrow>
               (Inr \<lparr>r_id = cab_id pedido, r_cliente_id = cab_cliente_id pedido,
                      r_estado = cab_estado pedido, r_productos = productosAgregados,
                      r_total_productos =
                        foldl (\<lambda>total producto. total + cantidad producto) 0 productos\<rparr>,
                db2)))"

text \<open>
  \<^verbatim>\<open>obtenerPedidosDeCliente(clienteId)\<close>:
  \<^verbatim>\<open>SELECT id, cliente_id, estado, fecha FROM pedidos WHERE cliente_id = ? ORDER BY fecha DESC\<close>.
  The rows of the client, sorted by descending date.
\<close>

definition obtenerPedidosDeCliente :: "bd \<Rightarrow> int \<Rightarrow> fila_pedido list" where
  "obtenerPedidosDeCliente db clienteId =
     sort_key (\<lambda>p. - p_fecha p) (filter (\<lambda>p. p_cliente_id p = clienteId) (tabla_pedidos db))"

section \<open>Auth gate: \<^verbatim>\<open>auth.middleware.js\<close>\<close>

text \<open>
  \<^verbatim>\<open>authHeader.split(" ")\<close>: JavaScript cuts at every single space, so two spaces in a
  row give an empty field and the empty string gives one empty field.
\<close>

fun split_espacio :: "string \<Rightarrow> string list" where
  "split_espacio [] = [[]]"
| "split_espacio (c # cs) =
     (if c = CHR '' '' then [] # split_espacio cs
      else (case split_espacio cs of
              [] \<Rightarrow> [[c]]
            | w # ws \<Rightarrow> (c # w) # ws))"

text \<open>Array indexing as the destructuring \<^verbatim>\<open>[bearer, token]\<close> does it: out of range is \<^verbatim>\<open>undefined\<close>.\<close>

definition elemento :: "'a list \<Rightarrow> nat \<Rightarrow> 'a option" where
  "elemento xs i = (if i < length xs then Some (xs ! i) else None)"

text \<open>
  The texts of the \<^verbatim>\<open>mensaje\<close> and \<^verbatim>\<open>detalle\<close> fields of the 401 bodies, in the order
  of the source:
  \<^verbatim>\<open>Falta cabecera Authorization\<close>, \<^verbatim>\<open>Formato de token no valido\<close>,
  \<^verbatim>\<open>Token no valido\<close>, \<^verbatim>\<open>Token expirado\<close>, \<^verbatim>\<open>Token malformado\<close>,
  \<^verbatim>\<open>Token no es valido todavia\<close>; and
  \<^verbatim>\<open>Debes incluir 'Authorization: Bearer <token>' en la peticion\<close>,
  \<^verbatim>\<open>El formato debe ser: 'Bearer <token>'\<close>, \<^verbatim>\<open>Por favor, inicia sesion nuevamente\<close>
  (the source spells them with accents).
\<close>

datatype mensaje =
    FaltaCabecera | FormatoNoValido | TokenNoValido
  | TokenExpirado | TokenMalformado | TokenNoValidoTodavia

datatype detalle = DebesIncluir | ElFormatoDebeSer | IniciaSesionNuevamente

text \<open>The payload \<^verbatim>\<open>jwt.verify\<close> returns; a field the token does not carry is \<^verbatim>\<open>undefined\<close>.\<close>

record decoded =
  d_cliente_id :: "int option"
  d_email :: "string option"
  d_nombre :: "string option"

record usuario_req =
  u_cliente_id :: "int option"
  u_id :: "int option"
  u_email :: "string option"
  u_nombre :: "string option"

record peticion =
  authorization :: "string option"
  user :: "usuario_req option"

text \<open>
  What the middleware does with a request: either it calls \<^verbatim>\<open>next()\<close>, handing the
  annotated request to the downstream handler, or it answers itself with
  \<^verbatim>\<open>res.status(...).json({ mensaje, detalle })\<close> and \<^verbatim>\<open>next\<close> is never called.
\<close>

datatype resultado = Next peticion | Respuesta nat mensaje detalle

text \<open>The \<^verbatim>\<open>catch\<close> block: the message is chosen by \<^verbatim>\<open>error.name\<close>.\<close>

definition mensaje_error :: "string \<Rightarrow> mensaje" where
  "mensaje_error name =
     (if name = ''TokenExpiredError'' then TokenExpirado
      else if name = ''JsonWebTokenError'' then TokenMalformado
      else if name = ''NotBeforeError'' then TokenNoValidoTodavia
      else TokenNoValido)"

text \<open>
  \<^verbatim>\<open>verificarToken(req, res, next)\<close>. The library call
  \<^verbatim>\<open>jwt.verify(token, process.env.JWT_SECRET)\<close> is a parameter: it returns the decoded
  payload or throws an error, of which the code reads the \<^verbatim>\<open>name\<close>.
\<close>

definition verificarToken :: "(string \<Rightarrow> string + decoded) \<Rightarrow> peticion \<Rightarrow> resultado" where
  "verificarToken jwt_verify req =
     (case authorization req of
        None \<Rightarrow> Respuesta 401 FaltaCabecera DebesIncluir
      | Some authHeader \<Rightarrow>
          if authHeader = [] then Respuesta 401 FaltaCabecera DebesIncluir
          else
            (case elemento (split_espacio authHeader) 1 of
               None \<Rightarrow> Respuesta 401 FormatoNoValido ElFormatoDebeSer
             | Some tok \<Rightarrow>
                 if elemento (split_espacio authHeader) 0 \<noteq> Some ''Bearer'' \<or> tok = []
                 then Respuesta 401 FormatoNoValido ElFormatoDebeSer
                 else
                   (case jwt_verify tok of
                      Inl name \<Rightarrow> Respuesta 401 (mensaje_error name) IniciaSesionNuevamente
                    | Inr dec \<Rightarrow>
                        Next (req\<lparr>user := Some \<lparr>u_cliente_id = d_cliente_id dec,
                                                 u_id = d_cliente_id dec,
                                                 u_email = d_email dec,
                                                 u_nombre = d_nombre dec\<rparr>\<rparr>))))"

section \<open>Login: \<^verbatim>\<open>controllers/auth.controller.js\<close>\<close>

record usuario_publico =
  us_id :: int
  us_nombre :: string
  us_email :: string

text \<open>The HTTP answer of the controller: status code and JSON body.\<close>

record respuesta =
  res_status :: nat
  res_success :: bool
  res_message :: string
  res_token :: "string option"
  res_usuario :: "usuario_publico option"

text \<open>
  \<^verbatim>\<open>login(req, res)\<close> on the body \<^verbatim>\<open>{ email, password }\<close>. The password is
  destructured from the body and handed on as it is: it is \<^verbatim>\<open>undefined\<close>
  (\<open>None\<close>) when the body has no such field. The three awaited calls are
  parameters: \<^verbatim>\<open>clientesModel.buscarPorEmail\<close> (the row or nothing),
  \<^verbatim>\<open>bcrypt.compare\<close> and \<^verbatim>\<open>jwt.sign\<close> with the secret and expiry of the
  environment; each may throw (\<open>Inl\<close>), which the \<^verbatim>\<open>catch\<close> block answers with 500.
\<close>

definition login ::
    "(string \<Rightarrow> 'e + cliente option) \<Rightarrow> (string option \<Rightarrow> string \<Rightarrow> 'e + bool) \<Rightarrow>
     (int \<Rightarrow> 'e + string) \<Rightarrow> string \<Rightarrow> string option \<Rightarrow> respuesta" where
  "login buscarPorEmail bcrypt_compare jwt_sign email password =
     (case buscarPorEmail email of
        Inl e \<Rightarrow> \<lparr>res_status = 500, res_success = False,
                   res_message = ''Error interno del servidor'',
                   res_token = None, res_usuario = None\<rparr>
      | Inr None \<Rightarrow> \<lparr>res_status = 401, res_success = False,
                      res_message = ''Email o password incorrectos'',
                      res_token = None, res_usuario = None\<rparr>
      | Inr (Some usr) \<Rightarrow>
          (case bcrypt_compare password (cl_password usr) of
             Inl e \<Rightarrow> \<lparr>res_status = 500, res_success = False,
                        res_message = ''Error interno del servidor'',
                        res_token = None, res_usuario = None\<rparr>
           | Inr passwordValido \<Rightarrow>
               if \<not> passwordValido
               then \<lparr>res_status = 401, res_success = False,
                     res_message = ''Email o password incorrectos'',
                     res_token = None, res_usuario = None\<rparr>
               else
                 (case jwt_sign (cl_id usr) of
                    Inl e \<Rightarrow> \<lparr>res_status = 500, res_success = False,
                               res_message = ''Error interno del servidor'',
                               res_token = None, res_usuario = None\<rparr>
                  | Inr tok \<Rightarrow> \<lparr>res_status = 200, res_success = True,
                                 res_message = ''Login exitoso'',
                                 res_token = Some tok,
                                 res_usuario = Some \<lparr>us_id = cl_id usr,
                                                      us_nombre = cl_nombre usr,
                                                      us_email = cl_email usr\<rparr>\<rparr>)))"

section \<open>Client-side cart\<close>

text \<open>
  The global \<^verbatim>\<open>estado\<close> object of the browser client and its cart functions. The
  calls that only redraw the page (\<^verbatim>\<open>mostrarCarrito\<close>, \<^verbatim>\<open>actualizarBotonCarrito\<close>,
  \<^verbatim>\<open>alert\<close>, \<^verbatim>\<open>console.log\<close>) leave the state as it is and are not modelled.
\<close>

record item_carrito =
  it_id :: int
  it_nombre :: string
  it_precio :: int
  it_cantidad :: int
  it_stock :: int

record estado =
  usuario :: "usuario_publico option"
  token :: "string option"
  productos :: "producto list"
  carrito :: "item_carrito list"

text \<open>\<^verbatim>\<open>!!(estado.usuario && estado.token)\<close>: an object is truthy, a string is truthy unless empty.\<close>

definition estaLogueado :: "estado \<Rightarrow> bool" where
  "estaLogueado s =
     (usuario s \<noteq> None \<and> (case token s of None \<Rightarrow> False | Some t \<Rightarrow> t \<noteq> []))"

text \<open>
  \<^verbatim>\<open>productoEnCarrito.cantidad = ...\<close> writes through the reference that
  \<^verbatim>\<open>find\<close> returned: the first item with that id.
\<close>

fun fijar_cantidad :: "int \<Rightarrow> int \<Rightarrow> item_carrito list \<Rightarrow> item_carrito list" where
  "fijar_cantidad productoId n [] = []"
| "fijar_cantidad productoId n (item # items) =
     (if it_id item = productoId then item\<lparr>it_cantidad := n\<rparr> # items
      else item # fijar_cantidad productoId n items)"

text \<open>\<^verbatim>\<open>findIndex\<close> followed by \<^verbatim>\<open>splice(index, 1)\<close>: the first item with that id goes.\<close>

fun quitar_primero :: "int \<Rightarrow> item_carrito list \<Rightarrow> item_carrito list" where
  "quitar_primero productoId [] = []"
| "quitar_primero productoId (item # items) =
     (if it_id item = productoId then items
      else item # quitar_primero productoId items)"

definition agregarAlCarrito :: "estado \<Rightarrow> int \<Rightarrow> int \<Rightarrow> estado" where
  "agregarAlCarrito s productoId cant =
     (if \<not> estaLogueado s then s
      else
        (case find (\<lambda>p. pr_id p = productoId) (productos s) of
           None \<Rightarrow> s
         | Some producto \<Rightarrow>
             if pr_stock producto < cant then s
             else
               (case find (\<lambda>item. it_id item = productoId) (carrito s) of
                  Some productoEnCarrito \<Rightarrow>
                    (let nuevaCantidad = it_cantidad productoEnCarrito + cant
                     in if nuevaCantidad > pr_stock producto then s
                        else s\<lparr>carrito := fijar_cantidad productoId nuevaCantidad (carrito s)\<rparr>)
                | None \<Rightarrow>
                    s\<lparr>carrito := carrito s @
                         [\<lparr>it_id = pr_id producto, it_nombre = pr_nombre producto,
                           it_precio = pr_precio producto, it_cantidad = cant,
                           it_stock = pr_stock producto\<rparr>]\<rparr>)))"

definition quitarDelCarrito :: "estado \<Rightarrow> int \<Rightarrow> estado" where
  "quitarDelCarrito s productoId = s\<lparr>carrito := quitar_primero productoId (carrito s)\<rparr>"

definition cambiarCantidad :: "estado \<Rightarrow> int \<Rightarrow> int \<Rightarrow> estado" where
  "cambiarCantidad s productoId nuevaCantidad =
     (if nuevaCantidad < 1 then quitarDelCarrito s productoId
      else
        (case find (\<lambda>item. it_id item = productoId) (carrito s) of
           None \<Rightarrow> s
         | Some productoEnCarrito \<Rightarrow>
             if nuevaCantidad > it_stock productoEnCarrito then s
             else s\<lparr>carrito := fijar_cantidad productoId nuevaCantidad (carrito s)\<rparr>))"

text \<open>A sequence of cart operations, run from left to right.\<close>

datatype operacion = Agregar int int | Cambiar int int | Quitar int

fun aplicar :: "estado \<Rightarrow> operacion \<Rightarrow> estado" where
  "aplicar s (Agregar productoId cant) = agregarAlCarrito s productoId cant"
| "aplicar s (Cambiar productoId nuevaCantidad) = cambiarCantidad s productoId nuevaCantidad"
| "aplicar s (Quitar productoId) = quitarDelCarrito s productoId"

definition ejecutar :: "estado \<Rightarrow> operacion list \<Rightarrow> estado" where
  "ejecutar s ops = foldl aplicar s ops"

section \<open>Auxiliary definitions for the statements\<close>

text \<open>
  The rows that successive successful calls of \<^verbatim>\<open>agregarProductoAPedido\<close> append for the
  requests \<open>ps\<close>, when the line counter stands at \<open>n\<close>: used to describe the loop
  in closed form.
\<close>

fun lineas_nuevas :: "int \<Rightarrow> int \<Rightarrow> producto_pedido list \<Rightarrow> linea list" where
  "lineas_nuevas n pedidoId [] = []"
| "lineas_nuevas n pedidoId (p # ps) =
     \<lparr>pp_id = n, pp_pedido_id = pedidoId, pp_producto_id = producto_id p,
       pp_cantidad = cantidad p\<rparr> # lineas_nuevas (n + 1) pedidoId ps"

text \<open>
  A small store for the concrete cases: one client, two products (stock 5 and stock 1),
  no orders yet.
\<close>

definition bd_ejemplo :: bd where
  "bd_ejemplo =
     \<lparr>tabla_clientes = [\<lparr>cl_id = 1, cl_nombre = ''Ana'', cl_email = ''ana@x.com'',
                          cl_password = ''hash''\<rparr>],
      tabla_productos = [\<lparr>pr_id = 1, pr_nombre = ''Camiseta'', pr_precio = 1999, pr_stock = 5\<rparr>,
                         \<lparr>pr_id = 2, pr_nombre = ''Gorra'', pr_precio = 999, pr_stock = 1\<rparr>],
      tabla_pedidos = [],
      tabla_pedidos_productos = [],
      auto_pedidos = 1,
      auto_lineas = 1,
      ahora = 1000\<rparr>"

text \<open>The store after a request whose second product is unknown was cut short.\<close>

definition bd_parcial :: bd where
  "bd_parcial =
     \<lparr>tabla_clientes = [\<lparr>cl_id = 1, cl_nombre = ''Ana'', cl_email = ''ana@x.com'',
                          cl_password = ''hash''\<rparr>],
      tabla_productos = [\<lparr>pr_id = 1, pr_nombre = ''Camiseta'', pr_precio = 1999, pr_stock = 5\<rparr>,
                         \<lparr>pr_id = 2, pr_nombre = ''Gorra'', pr_precio = 999, pr_stock = 1\<rparr>],
      tabla_pedidos = [\<lparr>p_id = 1, p_cliente_id = 1, p_estado = ''pendiente'', p_fecha = 1000\<rparr>],
      tabla_pedidos_productos =
        [\<lparr>pp_id = 1, pp_pedido_id = 1, pp_producto_id = 1, pp_cantidad = 2\<rparr>],
      auto_pedidos = 2,
      auto_lineas = 2,
      ahora = 1000\<rparr>"

text \<open>A store with the orders of two clients, placed at three different times.\<close>

definition bd_historial :: bd where
  "bd_historial =
     \<lparr>tabla_clientes = [\<lparr>cl_id = 1, cl_nombre = ''Ana'', cl_email = ''ana@x.com'',
                          cl_password = ''hash''\<rparr>,
                        \<lparr>cl_id = 2, cl_nombre = ''Luis'', cl_email = ''luis@x.com'',
                          cl_password = ''hash2''\<rparr>],
      tabla_productos = [],
      tabla_pedidos = [\<lparr>p_id = 1, p_cliente_id = 1, p_estado = ''pendiente'', p_fecha = 10\<rparr>,
                       \<lparr>p_id = 2, p_cliente_id = 2, p_estado = ''pendiente'', p_fecha = 20\<rparr>,
                       \<lparr>p_id = 3, p_cliente_id = 1, p_estado = ''pendiente'', p_fecha = 30\<rparr>],
      tabla_pedidos_productos = [],
      auto_pedidos = 4,
      auto_lineas = 1,
      ahora = 40\<rparr>"

text \<open>
  Two stand-ins for \<^verbatim>\<open>jwt.verify\<close> in the concrete cases: one that accepts every
  token as client 7, and one that knows an expired token, a token that is not valid yet,
  a good token of client 7, and rejects everything else as malformed.
\<close>

definition jwt_acepta :: "string \<Rightarrow> string + decoded" where
  "jwt_acepta t = Inr \<lparr>d_cliente_id = Some 7, d_email = None, d_nombre = None\<rparr>"

definition jwt_ejemplo :: "string \<Rightarrow> string + decoded" where
  "jwt_ejemplo t =
     (if t = ''caducado'' then Inl ''TokenExpiredError''
      else if t = ''futuro'' then Inl ''NotBeforeError''
      else if t = ''bueno'' then Inr \<lparr>d_cliente_id = Some 7, d_email = None, d_nombre = None\<rparr>
      else Inl ''JsonWebTokenError'')"

text \<open>
  Stand-ins for the three calls of \<^verbatim>\<open>login\<close> in the concrete cases: an account table
  with the single account \<^verbatim>\<open>ana@x.com\<close>, a hash comparison that throws when the
  password is not a string (as \<^verbatim>\<open>bcryptjs\<close> does, with \<^verbatim>\<open>Illegal arguments\<close>), and a
  signer.
\<close>

definition buscar_ejemplo :: "string \<Rightarrow> unit + cliente option" where
  "buscar_ejemplo email =
     (if email = ''ana@x.com''
      then Inr (Some \<lparr>cl_id = 1, cl_nombre = ''Ana'', cl_email = ''ana@x.com'',
                      cl_password = ''hash:s3cret1''\<rparr>)
      else Inr None)"

definition compare_ejemplo :: "string option \<Rightarrow> string \<Rightarrow> unit + bool" where
  "compare_ejemplo password hash =
     (case password of
        None \<Rightarrow> Inl ()
      | Some p \<Rightarrow> Inr (hash = ''hash:'' @ p))"

definition sign_ejemplo :: "int \<Rightarrow> unit + string" where
  "sign_ejemplo i = Inr ''token''"

text \<open>A logged-in client state with a catalogue of two products and an empty cart.\<close>

definition estado_ejemplo :: estado where
  "estado_ejemplo =
     \<lparr>usuario = Some \<lparr>us_id = 1, us_nombre = ''Ana'', us_email = ''ana@x.com''\<rparr>,
      token = Some ''token'',
      productos = [\<lparr>pr_id = 1, pr_nombre = ''Camiseta'', pr_precio = 1999, pr_stock = 5\<rparr>,
                   \<lparr>pr_id = 2, pr_nombre = ''Gorra'', pr_precio = 999, pr_stock = 1\<rparr>],
      carrito = []\<rparr>"

text \<open>
  The cart invariant: every item has a quantity between 1 and the stock recorded in the
  item, and no product identifier occurs twice.
\<close>

definition carrito_ok :: "estado \<Rightarrow> bool" where
  "carrito_ok s =
     ((\<forall>item \<in> set (carrito s). 1 \<le> it_cantidad item \<and> it_cantidad item \<le> it_stock item) \<and>
      distinct (map it_id (carrito s)))"

text \<open>
  The same, together with what keeps it inductive: the stock recorded in an item is the
  stock of the catalogue entry that \<^verbatim>\<open>find\<close> returns for its identifier.
\<close>

definition carrito_inv :: "estado \<Rightarrow> bool" where
  "carrito_inv s =
     ((\<forall>item \<in> set (carrito s).
         1 \<le> it_cantidad item \<and> it_cantidad item \<le> it_stock item \<and>
         (\<exists>p. find (\<lambda>p. pr_id p = it_id item) (productos s) = Some p \<and>
              pr_stock p = it_stock item)) \<and>
      distinct (map it_id (carrito s)))"

text \<open>An operation that adds to the cart does so with a quantity of at least 1.\<close>

definition cantidad_positiva :: "operacion \<Rightarrow> bool" where
  "cantidad_positiva op = (case op of Agregar productoId cant \<Rightarrow> 1 \<le> cant | _ \<Rightarrow> True)"

section \<open>The line loop and \<^verbatim>\<open>crear\<close> in closed form\<close>

lemma length_lineas_nuevas: "length (lineas_nuevas n i ps) = length ps"
  by (induction ps arbitrary: n) simp_all

lemma producto_lineas_nuevas: "map pp_producto_id (lineas_nuevas n i ps) = map producto_id ps"
  by (induction ps arbitrary: n) simp_all

lemma cantidad_lineas_nuevas: "map pp_cantidad (lineas_nuevas n i ps) = map cantidad ps"
  by (induction ps arbitrary: n) simp_all

lemma pedido_lineas_nuevas: "l \<in> set (lineas_nuevas n i ps) \<Longrightarrow> pp_pedido_id l = i"
  by (induction ps arbitrary: n) auto

lemma agregar_lineas_caract:
  "existe_pedido db i \<Longrightarrow>
   agregar_lineas db i ps acc =
     (let ok = takeWhile (\<lambda>p. existe_producto db (producto_id p)) ps;
          ls = lineas_nuevas (auto_lineas db) i ok
      in (if ok = ps then Inr (acc @ ls) else Inl (ER_NO_REFERENCED_ROW_2 ''producto_id''),
          db\<lparr>tabla_pedidos_productos := tabla_pedidos_productos db @ ls,
             auto_lineas := auto_lineas db + int (length ok)\<rparr>))"
proof (induction ps arbitrary: db acc)
  case Nil
  then show ?case by simp
next
  case (Cons p ps)
  show ?case
  proof (cases "existe_producto db (producto_id p)")
    case False
    with Cons.prems show ?thesis
      by (simp add: agregarProductoAPedido_def)
  next
    case True
    let ?l = "\<lparr>pp_id = auto_lineas db, pp_pedido_id = i, pp_producto_id = producto_id p,
                pp_cantidad = cantidad p\<rparr>"
    let ?db = "db\<lparr>tabla_pedidos_productos := tabla_pedidos_productos db @ [?l],
                  auto_lineas := auto_lineas db + 1\<rparr>"
    have paso: "agregarProductoAPedido db i (producto_id p) (cantidad p) = (Inr ?l, ?db)"
      using True Cons.prems by (simp add: agregarProductoAPedido_def)
    have ped: "existe_pedido ?db i"
      using Cons.prems by (simp add: existe_pedido_def)
    have prod: "\<And>j. existe_producto ?db j = existe_producto db j"
      by (simp add: existe_producto_def)
    have "takeWhile (\<lambda>p. existe_producto db (producto_id p)) ps = ps \<longleftrightarrow>
          p # takeWhile (\<lambda>p. existe_producto db (producto_id p)) ps = p # ps"
      by simp
    show ?thesis
      using True by (simp add: paso Cons.IH [OF ped] prod Let_def)
  qed
qed

lemma foldl_cantidad:
  "foldl (\<lambda>total producto. total + cantidad producto) a ps = a + sum_list (map cantidad ps)"
  by (induction ps arbitrary: a) simp_all

lemma crear_sin_cliente:
  "\<not> existe_cliente db c \<Longrightarrow> crear db c ps = (Inl (ER_NO_REFERENCED_ROW_2 ''cliente_id''), db)"
  by (simp add: crear_def crearPedido_def)

lemma crear_caract:
  assumes "existe_cliente db c"
  shows "crear db c ps =
     (let ok = takeWhile (\<lambda>p. existe_producto db (producto_id p)) ps;
          ls = lineas_nuevas (auto_lineas db) (auto_pedidos db) ok
      in (if ok = ps
          then Inr \<lparr>r_id = auto_pedidos db, r_cliente_id = c, r_estado = ''pendiente'',
                    r_productos = ls, r_total_productos = sum_list (map cantidad ps)\<rparr>
          else Inl (ER_NO_REFERENCED_ROW_2 ''producto_id''),
          db\<lparr>tabla_pedidos := tabla_pedidos db @
                 [\<lparr>p_id = auto_pedidos db, p_cliente_id = c, p_estado = ''pendiente'',
                   p_fecha = ahora db\<rparr>],
             auto_pedidos := auto_pedidos db + 1,
             tabla_pedidos_productos := tabla_pedidos_productos db @ ls,
             auto_lineas := auto_lineas db + int (length ok)\<rparr>))"
proof -
  let ?db1 = "db\<lparr>tabla_pedidos := tabla_pedidos db @
                 [\<lparr>p_id = auto_pedidos db, p_cliente_id = c, p_estado = ''pendiente'',
                   p_fecha = ahora db\<rparr>],
             auto_pedidos := auto_pedidos db + 1\<rparr>"
  have ped: "existe_pedido ?db1 (auto_pedidos db)"
    by (simp add: existe_pedido_def)
  have prod: "\<And>j. existe_producto ?db1 j = existe_producto db j"
    by (simp add: existe_producto_def)
  show ?thesis
    using assms
    by (simp add: crear_def crearPedido_def agregar_lineas_caract [OF ped] prod Let_def
        foldl_cantidad)
qed

lemma existe_cliente_ejemplo: "existe_cliente bd_ejemplo 1"
  by (simp add: bd_ejemplo_def existe_cliente_def)

lemma existe_producto_ejemplo:
  "existe_producto bd_ejemplo 1" "existe_producto bd_ejemplo 2"
  "\<not> existe_producto bd_ejemplo 99"
  by (simp_all add: bd_ejemplo_def existe_producto_def)

section \<open>C1: order persistence is not atomic\<close>

text \<open>
  C1, as stated, asks that a failure while the lines are being persisted leaves neither
  the header row nor any line row. In the example store, the request
  \<open>[(1, 2), (99, 1)]\<close> of client 1 fails at its second line (product 99 does not
  exist), and the header row and the first line row are in the store afterwards: each
  \<^verbatim>\<open>pool.query\<close> commits on its own and \<^verbatim>\<open>crear\<close> only rethrows.
\<close>

theorem crear_parcial_contraejemplo:
  "fst (crear bd_ejemplo 1 [\<lparr>producto_id = 1, cantidad = 2\<rparr>, \<lparr>producto_id = 99, cantidad = 1\<rparr>])
     = Inl (ER_NO_REFERENCED_ROW_2 ''producto_id'') \<and>
   tabla_pedidos (snd (crear bd_ejemplo 1
       [\<lparr>producto_id = 1, cantidad = 2\<rparr>, \<lparr>producto_id = 99, cantidad = 1\<rparr>]))
     = [\<lparr>p_id = 1, p_cliente_id = 1, p_estado = ''pendiente'', p_fecha = 1000\<rparr>] \<and>
   tabla_pedidos_productos (snd (crear bd_ejemplo 1
       [\<lparr>producto_id = 1, cantidad = 2\<rparr>, \<lparr>producto_id = 99, cantidad = 1\<rparr>]))
     = [\<lparr>pp_id = 1, pp_pedido_id = 1, pp_producto_id = 1, pp_cantidad = 2\<rparr>]"
  by (simp add: crear_def crearPedido_def agregarProductoAPedido_def bd_ejemplo_def
      existe_cliente_def existe_producto_def existe_pedido_def)

text \<open>
  C1, amended: whenever \<^verbatim>\<open>crear\<close> fails, either the header insert was rejected and the
  store is unchanged, or the header row is persisted together with exactly the lines
  that precede the first rejected one (in request order, with the requested products
  and quantities), and the rejected line is the one right after them.
\<close>

theorem crear_error_deja_prefijo:
  assumes "crear db c ps = (Inl e, db')"
  shows "(\<not> existe_cliente db c \<and> db' = db) \<or>
         (existe_cliente db c \<and>
          tabla_pedidos db' = tabla_pedidos db @
            [\<lparr>p_id = auto_pedidos db, p_cliente_id = c, p_estado = ''pendiente'',
              p_fecha = ahora db\<rparr>] \<and>
          (\<exists>ls. tabla_pedidos_productos db' = tabla_pedidos_productos db @ ls \<and>
                length ls < length ps \<and>
                map pp_producto_id ls = map producto_id (take (length ls) ps) \<and>
                map pp_cantidad ls = map cantidad (take (length ls) ps) \<and>
                (\<forall>l \<in> set ls. pp_pedido_id l = auto_pedidos db) \<and>
                \<not> existe_producto db (producto_id (ps ! length ls))))"
proof (cases "existe_cliente db c")
  case False
  with assms show ?thesis by (simp add: crear_sin_cliente)
next
  case True
  let ?P = "\<lambda>p. existe_producto db (producto_id p)"
  let ?ok = "takeWhile ?P ps"
  let ?ls = "lineas_nuevas (auto_lineas db) (auto_pedidos db) ?ok"
  from assms True have neq: "?ok \<noteq> ps"
    by (auto simp: crear_caract Let_def split: if_splits)
  from assms True have db': "db' = db\<lparr>tabla_pedidos := tabla_pedidos db @
                 [\<lparr>p_id = auto_pedidos db, p_cliente_id = c, p_estado = ''pendiente'',
                   p_fecha = ahora db\<rparr>],
             auto_pedidos := auto_pedidos db + 1,
             tabla_pedidos_productos := tabla_pedidos_productos db @ ?ls,
             auto_lineas := auto_lineas db + int (length ?ok)\<rparr>"
    by (auto simp: crear_caract Let_def split: if_splits)
  have "length ?ok \<noteq> length ps"
  proof
    assume eq: "length ?ok = length ps"
    have "?ok = take (length ?ok) ps" by (rule takeWhile_eq_take)
    with eq have "?ok = ps" by simp
    with neq show False by simp
  qed
  moreover have "length ?ok \<le> length ps" by (rule length_takeWhile_le)
  ultimately have len: "length ?ok < length ps" by simp
  have tk: "take (length ?ok) ps = ?ok"
    by (rule takeWhile_eq_take [symmetric])
  have bad: "\<not> ?P (ps ! length ?ok)"
    using len by (rule nth_length_takeWhile)
  have "tabla_pedidos_productos db' = tabla_pedidos_productos db @ ?ls \<and>
        length ?ls < length ps \<and>
        map pp_producto_id ?ls = map producto_id (take (length ?ls) ps) \<and>
        map pp_cantidad ?ls = map cantidad (take (length ?ls) ps) \<and>
        (\<forall>l \<in> set ?ls. pp_pedido_id l = auto_pedidos db) \<and>
        \<not> existe_producto db (producto_id (ps ! length ?ls))"
    using len tk bad
    by (simp add: db' length_lineas_nuevas producto_lineas_nuevas cantidad_lineas_nuevas
        pedido_lineas_nuevas)
  then show ?thesis using True by (auto simp: db')
qed

theorem crear_error_deja_prefijo_witness:
  "crear bd_ejemplo 1 [\<lparr>producto_id = 1, cantidad = 2\<rparr>, \<lparr>producto_id = 99, cantidad = 1\<rparr>]
     = (Inl (ER_NO_REFERENCED_ROW_2 ''producto_id''), bd_parcial) \<and>
   tabla_pedidos bd_parcial = tabla_pedidos bd_ejemplo @
     [\<lparr>p_id = auto_pedidos bd_ejemplo, p_cliente_id = 1, p_estado = ''pendiente'',
       p_fecha = ahora bd_ejemplo\<rparr>] \<and>
   (\<exists>ls. tabla_pedidos_productos bd_parcial = tabla_pedidos_productos bd_ejemplo @ ls \<and>
         length ls < 2)"
proof -
  have h: "crear bd_ejemplo 1
             [\<lparr>producto_id = 1, cantidad = 2\<rparr>, \<lparr>producto_id = 99, cantidad = 1\<rparr>]
           = (Inl (ER_NO_REFERENCED_ROW_2 ''producto_id''), bd_parcial)"
    by (simp add: crear_def crearPedido_def agregarProductoAPedido_def bd_ejemplo_def
        bd_parcial_def existe_cliente_def existe_producto_def existe_pedido_def)
  show ?thesis
    using crear_error_deja_prefijo [OF h] existe_cliente_ejemplo h by auto
qed

section \<open>C2: an empty request creates an empty order\<close>

text \<open>
  C2, as stated, asks that an empty request fails and leaves the store unchanged. In the
  example store \<^verbatim>\<open>crear\<close> answers the empty request of client 1 with an order and the
  header row is persisted: the loop simply has nothing to do, as the comment
  \<^verbatim>\<open>(si hay productos)\<close> of the source says.
\<close>

theorem crear_vacio_contraejemplo:
  "fst (crear bd_ejemplo 1 [])
     = Inr \<lparr>r_id = 1, r_cliente_id = 1, r_estado = ''pendiente'', r_productos = [],
            r_total_productos = 0\<rparr> \<and>
   tabla_pedidos (snd (crear bd_ejemplo 1 []))
     = [\<lparr>p_id = 1, p_cliente_id = 1, p_estado = ''pendiente'', p_fecha = 1000\<rparr>]"
  by (simp add: crear_def crearPedido_def bd_ejemplo_def existe_cliente_def)

text \<open>
  C2, amended: for a registered client, \<^verbatim>\<open>crear\<close> with an empty list succeeds; it
  persists exactly one header row with status \<^verbatim>\<open>pendiente\<close> and no line row, and returns
  an order without lines whose total is 0.
\<close>

theorem crear_vacio:
  assumes "existe_cliente db c"
  shows "crear db c [] =
           (Inr \<lparr>r_id = auto_pedidos db, r_cliente_id = c, r_estado = ''pendiente'',
                  r_productos = [], r_total_productos = 0\<rparr>,
            db\<lparr>tabla_pedidos := tabla_pedidos db @
                   [\<lparr>p_id = auto_pedidos db, p_cliente_id = c, p_estado = ''pendiente'',
                     p_fecha = ahora db\<rparr>],
               auto_pedidos := auto_pedidos db + 1\<rparr>)"
  using assms by (simp add: crear_def crearPedido_def)

theorem crear_vacio_witness:
  "crear bd_ejemplo 1 [] =
     (Inr \<lparr>r_id = auto_pedidos bd_ejemplo, r_cliente_id = 1, r_estado = ''pendiente'',
            r_productos = [], r_total_productos = 0\<rparr>,
      bd_ejemplo\<lparr>tabla_pedidos := tabla_pedidos bd_ejemplo @
             [\<lparr>p_id = auto_pedidos bd_ejemplo, p_cliente_id = 1, p_estado = ''pendiente'',
               p_fecha = ahora bd_ejemplo\<rparr>],
         auto_pedidos := auto_pedidos bd_ejemplo + 1\<rparr>)"
  by (rule crear_vacio [OF existe_cliente_ejemplo])

section \<open>C3: an unknown product is rejected by the store, after the header\<close>

text \<open>
  C3, as stated, asks that a request naming an unknown product persists nothing. In the
  example store the single-line request for product 99 fails, with the store's
  foreign-key error, and the header row of the attempt is persisted.
\<close>

theorem crear_producto_desconocido_contraejemplo:
  "fst (crear bd_ejemplo 1 [\<lparr>producto_id = 99, cantidad = 1\<rparr>])
     = Inl (ER_NO_REFERENCED_ROW_2 ''producto_id'') \<and>
   tabla_pedidos (snd (crear bd_ejemplo 1 [\<lparr>producto_id = 99, cantidad = 1\<rparr>]))
     = [\<lparr>p_id = 1, p_cliente_id = 1, p_estado = ''pendiente'', p_fecha = 1000\<rparr>]"
  by (simp add: crear_def crearPedido_def agregarProductoAPedido_def bd_ejemplo_def
      existe_cliente_def existe_producto_def existe_pedido_def)

text \<open>
  C3, amended: for a registered client, a request in which some product identifier does
  not exist always fails, with the store's foreign-key error on \<^verbatim>\<open>producto_id\<close>
  rethrown as it is; the header row of the attempt stays persisted, and so do the lines
  of the requests that precede the first unknown product.
\<close>

theorem crear_producto_desconocido:
  assumes "existe_cliente db c" and "p \<in> set ps" and "\<not> existe_producto db (producto_id p)"
  shows "fst (crear db c ps) = Inl (ER_NO_REFERENCED_ROW_2 ''producto_id'') \<and>
         tabla_pedidos (snd (crear db c ps)) = tabla_pedidos db @
           [\<lparr>p_id = auto_pedidos db, p_cliente_id = c, p_estado = ''pendiente'',
             p_fecha = ahora db\<rparr>] \<and>
         (\<exists>ls. tabla_pedidos_productos (snd (crear db c ps))
                 = tabla_pedidos_productos db @ ls \<and>
               map pp_producto_id ls =
                 map producto_id (takeWhile (\<lambda>q. existe_producto db (producto_id q)) ps) \<and>
               map pp_cantidad ls =
                 map cantidad (takeWhile (\<lambda>q. existe_producto db (producto_id q)) ps) \<and>
               (\<forall>l \<in> set ls. pp_pedido_id l = auto_pedidos db))"
proof -
  let ?ok = "takeWhile (\<lambda>q. existe_producto db (producto_id q)) ps"
  let ?ls = "lineas_nuevas (auto_lineas db) (auto_pedidos db) ?ok"
  have neq: "?ok \<noteq> ps"
    using assms(2,3) by auto
  have "tabla_pedidos_productos (snd (crear db c ps)) = tabla_pedidos_productos db @ ?ls"
    by (simp add: crear_caract [OF assms(1)] Let_def)
  moreover have "map pp_producto_id ?ls = map producto_id ?ok"
    by (rule producto_lineas_nuevas)
  moreover have "map pp_cantidad ?ls = map cantidad ?ok"
    by (rule cantidad_lineas_nuevas)
  moreover have "\<forall>l \<in> set ?ls. pp_pedido_id l = auto_pedidos db"
    by (simp add: pedido_lineas_nuevas)
  ultimately have lineas: "\<exists>ls. tabla_pedidos_productos (snd (crear db c ps))
                 = tabla_pedidos_productos db @ ls \<and>
               map pp_producto_id ls = map producto_id ?ok \<and>
               map pp_cantidad ls = map cantidad ?ok \<and>
               (\<forall>l \<in> set ls. pp_pedido_id l = auto_pedidos db)"
    by blast
  have "fst (crear db c ps) = Inl (ER_NO_REFERENCED_ROW_2 ''producto_id'')"
    using neq by (simp add: crear_caract [OF assms(1)] Let_def)
  moreover have "tabla_pedidos (snd (crear db c ps)) = tabla_pedidos db @
           [\<lparr>p_id = auto_pedidos db, p_cliente_id = c, p_estado = ''pendiente'',
             p_fecha = ahora db\<rparr>]"
    by (simp add: crear_caract [OF assms(1)] Let_def)
  ultimately show ?thesis using lineas by blast
qed

theorem crear_producto_desconocido_witness:
  "fst (crear bd_ejemplo 1 [\<lparr>producto_id = 1, cantidad = 2\<rparr>, \<lparr>producto_id = 99, cantidad = 1\<rparr>])
     = Inl (ER_NO_REFERENCED_ROW_2 ''producto_id'') \<and>
   tabla_pedidos (snd (crear bd_ejemplo 1
       [\<lparr>producto_id = 1, cantidad = 2\<rparr>, \<lparr>producto_id = 99, cantidad = 1\<rparr>]))
     = tabla_pedidos bd_ejemplo @
       [\<lparr>p_id = auto_pedidos bd_ejemplo, p_cliente_id = 1, p_estado = ''pendiente'',
         p_fecha = ahora bd_ejemplo\<rparr>]"
proof -
  have h2: "\<lparr>producto_id = 99, cantidad = 1\<rparr>
              \<in> set [\<lparr>producto_id = 1, cantidad = 2\<rparr>, \<lparr>producto_id = 99, cantidad = 1\<rparr>]"
    by simp
  have h3: "\<not> existe_producto bd_ejemplo (producto_id \<lparr>producto_id = 99, cantidad = 1\<rparr>)"
    by (simp add: existe_producto_ejemplo)
  show ?thesis
    using crear_producto_desconocido [OF existe_cliente_ejemplo h2 h3] by blast
qed

section \<open>C4: \<^verbatim>\<open>crear\<close> does not look at the stock\<close>

text \<open>
  C4, as stated, asks that a quantity above the stock is rejected and nothing persisted.
  In the example store product 2 has stock 1; the request for 5 units of it succeeds and
  its header and line rows are persisted.
\<close>

theorem crear_sobre_stock_contraejemplo:
  "tabla_productos bd_ejemplo ! 1
     = \<lparr>pr_id = 2, pr_nombre = ''Gorra'', pr_precio = 999, pr_stock = 1\<rparr> \<and>
   fst (crear bd_ejemplo 1 [\<lparr>producto_id = 2, cantidad = 5\<rparr>])
     = Inr \<lparr>r_id = 1, r_cliente_id = 1, r_estado = ''pendiente'',
            r_productos = [\<lparr>pp_id = 1, pp_pedido_id = 1, pp_producto_id = 2, pp_cantidad = 5\<rparr>],
            r_total_productos = 5\<rparr> \<and>
   tabla_pedidos (snd (crear bd_ejemplo 1 [\<lparr>producto_id = 2, cantidad = 5\<rparr>]))
     = [\<lparr>p_id = 1, p_cliente_id = 1, p_estado = ''pendiente'', p_fecha = 1000\<rparr>] \<and>
   tabla_pedidos_productos (snd (crear bd_ejemplo 1 [\<lparr>producto_id = 2, cantidad = 5\<rparr>]))
     = [\<lparr>pp_id = 1, pp_pedido_id = 1, pp_producto_id = 2, pp_cantidad = 5\<rparr>]"
  by (simp add: crear_def crearPedido_def agregarProductoAPedido_def bd_ejemplo_def
      existe_cliente_def existe_producto_def existe_pedido_def)

text \<open>
  C4, amended: \<^verbatim>\<open>crear\<close> never reads the stock. For a registered client and existing
  products, a request in which some quantity exceeds the stock of its product succeeds
  all the same: every requested line is persisted with the requested quantity, and the
  product table (the stock with it) is left as it was.
\<close>

theorem crear_no_consulta_stock:
  assumes "existe_cliente db c"
    and "\<forall>p \<in> set ps. existe_producto db (producto_id p)"
    and "q \<in> set ps" and "pr \<in> set (tabla_productos db)"
    and "pr_id pr = producto_id q" and "pr_stock pr < cantidad q"
  shows "\<exists>ped db'. crear db c ps = (Inr ped, db') \<and>
           r_estado ped = ''pendiente'' \<and>
           map pp_producto_id (r_productos ped) = map producto_id ps \<and>
           map pp_cantidad (r_productos ped) = map cantidad ps \<and>
           tabla_pedidos_productos db' = tabla_pedidos_productos db @ r_productos ped \<and>
           tabla_productos db' = tabla_productos db"
proof -
  have ok: "takeWhile (\<lambda>p. existe_producto db (producto_id p)) ps = ps"
    using assms(2) by simp
  show ?thesis
    by (simp add: crear_caract [OF assms(1)] ok Let_def producto_lineas_nuevas
        cantidad_lineas_nuevas)
qed

theorem crear_no_consulta_stock_witness:
  "\<exists>ped db'. crear bd_ejemplo 1 [\<lparr>producto_id = 2, cantidad = 5\<rparr>] = (Inr ped, db') \<and>
     r_estado ped = ''pendiente'' \<and>
     map pp_producto_id (r_productos ped) = map producto_id [\<lparr>producto_id = 2, cantidad = 5\<rparr>] \<and>
     map pp_cantidad (r_productos ped) = map cantidad [\<lparr>producto_id = 2, cantidad = 5\<rparr>] \<and>
     tabla_pedidos_productos db' = tabla_pedidos_productos bd_ejemplo @ r_productos ped \<and>
     tabla_productos db' = tabla_productos bd_ejemplo"
proof -
  have h2: "\<forall>p \<in> set [\<lparr>producto_id = 2, cantidad = 5\<rparr>].
              existe_producto bd_ejemplo (producto_id p)"
    by (simp add: existe_producto_ejemplo)
  have h3: "\<lparr>producto_id = 2, cantidad = 5\<rparr> \<in> set [\<lparr>producto_id = 2, cantidad = 5\<rparr>]"
    by simp
  have h4: "\<lparr>pr_id = 2, pr_nombre = ''Gorra'', pr_precio = 999, pr_stock = 1\<rparr>
              \<in> set (tabla_productos bd_ejemplo)"
    by (simp add: bd_ejemplo_def)
  have h5: "pr_id \<lparr>pr_id = 2, pr_nombre = ''Gorra'', pr_precio = 999, pr_stock = 1\<rparr>
              = producto_id \<lparr>producto_id = 2, cantidad = 5\<rparr>"
    by simp
  have h6: "pr_stock \<lparr>pr_id = 2, pr_nombre = ''Gorra'', pr_precio = 999, pr_stock = 1\<rparr>
              < cantidad \<lparr>producto_id = 2, cantidad = 5\<rparr>"
    by simp
  show ?thesis
    by (rule crear_no_consulta_stock [OF existe_cliente_ejemplo h2 h3 h4 h5 h6])
qed

section \<open>C5: a valid request is persisted whole\<close>

text \<open>
  C5: for a registered client and a non-empty request whose products all exist and whose
  quantities do not exceed the stock, \<^verbatim>\<open>crear\<close> succeeds; the order it returns has as
  many lines as the request, in the same order and with the same products and
  quantities, all of them belonging to the new order; its total is the sum of the
  requested quantities and its status is \<^verbatim>\<open>pendiente\<close>; and the store has gained
  exactly the header row of this order and these lines.
\<close>

theorem crear_exito:
  assumes "ps \<noteq> []" and "existe_cliente db c"
    and "\<forall>p \<in> set ps. existe_producto db (producto_id p)"
    and "\<forall>p \<in> set ps. \<forall>pr \<in> set (tabla_productos db).
           pr_id pr = producto_id p \<longrightarrow> cantidad p \<le> pr_stock pr"
  shows "\<exists>ped db'. crear db c ps = (Inr ped, db') \<and>
           length (r_productos ped) = length ps \<and>
           r_total_productos ped = sum_list (map cantidad ps) \<and>
           r_estado ped = ''pendiente'' \<and>
           r_cliente_id ped = c \<and>
           map pp_producto_id (r_productos ped) = map producto_id ps \<and>
           map pp_cantidad (r_productos ped) = map cantidad ps \<and>
           (\<forall>l \<in> set (r_productos ped). pp_pedido_id l = r_id ped) \<and>
           tabla_pedidos db' = tabla_pedidos db @
             [\<lparr>p_id = r_id ped, p_cliente_id = c, p_estado = ''pendiente'',
               p_fecha = ahora db\<rparr>] \<and>
           tabla_pedidos_productos db' = tabla_pedidos_productos db @ r_productos ped"
proof -
  have ok: "takeWhile (\<lambda>p. existe_producto db (producto_id p)) ps = ps"
    using assms(3) by simp
  show ?thesis
    by (simp add: crear_caract [OF assms(2)] ok Let_def length_lineas_nuevas
        producto_lineas_nuevas cantidad_lineas_nuevas pedido_lineas_nuevas)
qed

theorem crear_exito_witness:
  "\<exists>ped db'. crear bd_ejemplo 1 [\<lparr>producto_id = 1, cantidad = 2\<rparr>, \<lparr>producto_id = 2, cantidad = 1\<rparr>]
               = (Inr ped, db') \<and>
     length (r_productos ped) = 2 \<and>
     r_total_productos ped = 3 \<and>
     r_estado ped = ''pendiente'' \<and>
     map pp_cantidad (r_productos ped) = [2, 1]"
proof -
  have h1: "[\<lparr>producto_id = 1, cantidad = 2\<rparr>, \<lparr>producto_id = 2, cantidad = 1\<rparr>] \<noteq> []"
    by simp
  have h3: "\<forall>p \<in> set [\<lparr>producto_id = 1, cantidad = 2\<rparr>, \<lparr>producto_id = 2, cantidad = 1\<rparr>].
              existe_producto bd_ejemplo (producto_id p)"
    by (simp add: existe_producto_ejemplo)
  have h4: "\<forall>p \<in> set [\<lparr>producto_id = 1, cantidad = 2\<rparr>, \<lparr>producto_id = 2, cantidad = 1\<rparr>].
              \<forall>pr \<in> set (tabla_productos bd_ejemplo).
                pr_id pr = producto_id p \<longrightarrow> cantidad p \<le> pr_stock pr"
    by (simp add: bd_ejemplo_def)
  from crear_exito [OF h1 existe_cliente_ejemplo h3 h4]
  obtain ped db' where r:
    "crear bd_ejemplo 1 [\<lparr>producto_id = 1, cantidad = 2\<rparr>, \<lparr>producto_id = 2, cantidad = 1\<rparr>]
       = (Inr ped, db')"
    "length (r_productos ped) = 2" "r_total_productos ped = 3"
    "r_estado ped = ''pendiente''" "map pp_cantidad (r_productos ped) = [2, 1]"
    by auto
  show ?thesis
    by (rule exI [of _ ped], rule exI [of _ db']) (simp add: r)
qed

section \<open>C9: the orders of a client, newest first\<close>

text \<open>
  C9: \<^verbatim>\<open>obtenerPedidosDeCliente\<close> returns exactly the order rows whose
  \<^verbatim>\<open>cliente_id\<close> is the given client (each as often as it is in the table, none of
  another client), sorted by descending date; when the client has no order the result
  is the empty list. The function has no error result.
\<close>

theorem obtenerPedidosDeCliente_propios_recientes:
  "mset (obtenerPedidosDeCliente db c)
     = mset (filter (\<lambda>p. p_cliente_id p = c) (tabla_pedidos db)) \<and>
   (\<forall>p \<in> set (obtenerPedidosDeCliente db c). p_cliente_id p = c) \<and>
   sorted_wrt (\<lambda>a b. p_fecha b \<le> p_fecha a) (obtenerPedidosDeCliente db c) \<and>
   ((\<forall>p \<in> set (tabla_pedidos db). p_cliente_id p \<noteq> c)
      \<longrightarrow> obtenerPedidosDeCliente db c = [])"
proof -
  let ?f = "\<lambda>p. - p_fecha p"
  let ?xs = "filter (\<lambda>p. p_cliente_id p = c) (tabla_pedidos db)"
  have "sorted (map ?f (sort_key ?f ?xs))"
    by (rule sorted_sort_key)
  then have ord: "sorted_wrt (\<lambda>a b. p_fecha b \<le> p_fecha a) (sort_key ?f ?xs)"
    by (simp add: sorted_map)
  have vacio: "(\<forall>p \<in> set (tabla_pedidos db). p_cliente_id p \<noteq> c) \<longrightarrow> ?xs = []"
    by (simp add: filter_empty_conv)
  show ?thesis
    unfolding obtenerPedidosDeCliente_def
    using ord vacio by auto
qed

theorem obtenerPedidosDeCliente_propios_recientes_witness:
  "obtenerPedidosDeCliente bd_historial 3 = [] \<and>
   mset (obtenerPedidosDeCliente bd_historial 1)
     = {#\<lparr>p_id = 1, p_cliente_id = 1, p_estado = ''pendiente'', p_fecha = 10\<rparr>,
         \<lparr>p_id = 3, p_cliente_id = 1, p_estado = ''pendiente'', p_fecha = 30\<rparr>#}"
  using obtenerPedidosDeCliente_propios_recientes [of bd_historial 3]
    obtenerPedidosDeCliente_propios_recientes [of bd_historial 1]
  by (simp add: bd_historial_def)

section \<open>The fields of the \<^verbatim>\<open>Authorization\<close> header\<close>

lemma split_espacio_no_vacio: "split_espacio s \<noteq> []"
  by (induction s) (auto split: list.splits)

lemma split_espacio_sin_espacio: "CHR '' '' \<notin> set t \<Longrightarrow> split_espacio t = [t]"
  by (induction t) auto

lemma split_espacio_append:
  "CHR '' '' \<notin> set t \<Longrightarrow> split_espacio (t @ CHR '' '' # r) = t # split_espacio r"
  by (induction t) auto

lemma split_espacio_hd: "hd (split_espacio s) = takeWhile (\<lambda>c. c \<noteq> CHR '' '') s"
  by (induction s) (auto split: list.splits simp: split_espacio_no_vacio)

lemma split_espacio_tl:
  "tl (split_espacio s) =
     (case dropWhile (\<lambda>c. c \<noteq> CHR '' '') s of [] \<Rightarrow> [] | x # r \<Rightarrow> split_espacio r)"
proof (induction s)
  case Nil
  show ?case by simp
next
  case (Cons c cs)
  show ?case
  proof (cases "c = CHR '' ''")
    case True
    then show ?thesis by simp
  next
    case False
    obtain w ws where w: "split_espacio cs = w # ws"
      using split_espacio_no_vacio [of cs] by (cases "split_espacio cs") auto
    from Cons.IH w
    have "ws = (case dropWhile (\<lambda>c. c \<noteq> CHR '' '') cs of [] \<Rightarrow> [] | x # r \<Rightarrow> split_espacio r)"
      by simp
    with False w show ?thesis by simp
  qed
qed

lemma elemento_0: "elemento (split_espacio s) 0 = Some (takeWhile (\<lambda>c. c \<noteq> CHR '' '') s)"
  using split_espacio_no_vacio [of s] split_espacio_hd [of s]
  by (cases "split_espacio s") (auto simp: elemento_def)

lemma elemento_1:
  "elemento (split_espacio s) 1 =
     (case dropWhile (\<lambda>c. c \<noteq> CHR '' '') s of
        [] \<Rightarrow> None
      | x # r \<Rightarrow> Some (takeWhile (\<lambda>c. c \<noteq> CHR '' '') r))"
proof (cases "split_espacio s")
  case Nil
  then show ?thesis using split_espacio_no_vacio [of s] by simp
next
  case (Cons w ws)
  then have tl: "ws = (case dropWhile (\<lambda>c. c \<noteq> CHR '' '') s of [] \<Rightarrow> [] | x # r \<Rightarrow> split_espacio r)"
    using split_espacio_tl [of s] by simp
  show ?thesis
  proof (cases "dropWhile (\<lambda>c. c \<noteq> CHR '' '') s")
    case Nil
    have "ws = []" using tl unfolding Nil by simp
    with \<open>split_espacio s = w # ws\<close> show ?thesis
      unfolding Nil by (simp add: elemento_def)
  next
    case (Cons x r)
    have ws: "ws = split_espacio r" using tl unfolding Cons by simp
    obtain v vs where v: "split_espacio r = v # vs"
      using split_espacio_no_vacio [of r] by (cases "split_espacio r") auto
    have "v = takeWhile (\<lambda>c. c \<noteq> CHR '' '') r"
      using split_espacio_hd [of r] v by simp
    with ws v \<open>split_espacio s = w # ws\<close> show ?thesis
      unfolding Cons by (simp add: elemento_def)
  qed
qed

lemma campos_de_bearer:
  assumes "t \<noteq> []" and "CHR '' '' \<notin> set t" and "r = [] \<or> hd r = CHR '' ''"
  shows "elemento (split_espacio (''Bearer '' @ t @ r)) 0 = Some ''Bearer'' \<and>
         elemento (split_espacio (''Bearer '' @ t @ r)) 1 = Some t"
proof -
  have todos: "\<forall>c \<in> set t. c \<noteq> CHR '' ''"
    using assms(2) by auto
  have tw: "takeWhile (\<lambda>c. c \<noteq> CHR '' '') (t @ r) = t"
  proof (cases r)
    case Nil
    with todos show ?thesis by simp
  next
    case (Cons x r')
    with assms(3) have "x = CHR '' ''" by simp
    with Cons todos show ?thesis by simp
  qed
  show ?thesis
    unfolding elemento_0 elemento_1 by (simp add: tw)
qed

lemma bearer_de_campos:
  assumes "elemento (split_espacio h) 0 = Some ''Bearer''"
    and "elemento (split_espacio h) 1 = Some tok"
  shows "\<exists>r. h = ''Bearer '' @ tok @ r \<and> CHR '' '' \<notin> set tok \<and> (r = [] \<or> hd r = CHR '' '')"
proof -
  let ?P = "\<lambda>c. c \<noteq> CHR '' ''"
  from assms(1) have b: "takeWhile ?P h = ''Bearer''" by (simp add: elemento_0)
  from assms(2) obtain x rest where d: "dropWhile ?P h = x # rest" and t: "tok = takeWhile ?P rest"
    unfolding elemento_1 by (auto split: list.splits)
  have "\<not> ?P (hd (dropWhile ?P h))"
    by (rule hd_dropWhile) (simp add: d)
  with d have x: "x = CHR '' ''" by simp
  have "h = takeWhile ?P h @ dropWhile ?P h" by simp
  with b d x have h: "h = ''Bearer '' @ rest" by simp
  have rest: "rest = tok @ dropWhile ?P rest" using t by simp
  have nosp: "CHR '' '' \<notin> set tok"
    using t by (auto dest: set_takeWhileD)
  have fin: "dropWhile ?P rest = [] \<or> hd (dropWhile ?P rest) = CHR '' ''"
    using hd_dropWhile [of ?P rest] by auto
  from h rest have "h = ''Bearer '' @ tok @ dropWhile ?P rest" by simp
  with nosp fin show ?thesis by blast
qed

section \<open>C6: the auth gate\<close>

lemma puerta_falta:
  "authorization req = None \<or> authorization req = Some [] \<Longrightarrow>
   verificarToken jwt_verify req = Respuesta 401 FaltaCabecera DebesIncluir"
  by (auto simp: verificarToken_def)

lemma puerta_formato:
  assumes "authorization req = Some h" and "h \<noteq> []"
    and "\<forall>t r. h = ''Bearer '' @ t @ r \<longrightarrow>
           t = [] \<or> CHR '' '' \<in> set t \<or> (r \<noteq> [] \<and> hd r \<noteq> CHR '' '')"
  shows "verificarToken jwt_verify req = Respuesta 401 FormatoNoValido ElFormatoDebeSer"
proof (cases "elemento (split_espacio h) 1")
  case None
  with assms(1,2) show ?thesis by (simp add: verificarToken_def)
next
  case (Some tok)
  have "elemento (split_espacio h) 0 \<noteq> Some ''Bearer'' \<or> tok = []"
  proof (rule ccontr)
    assume "\<not> (elemento (split_espacio h) 0 \<noteq> Some ''Bearer'' \<or> tok = [])"
    then have b: "elemento (split_espacio h) 0 = Some ''Bearer''" and t: "tok \<noteq> []" by simp_all
    from bearer_de_campos [OF b Some] obtain r where
      "h = ''Bearer '' @ tok @ r" "CHR '' '' \<notin> set tok" "r = [] \<or> hd r = CHR '' ''"
      by blast
    with assms(3) t show False by blast
  qed
  with assms(1,2) Some show ?thesis by (auto simp: verificarToken_def)
qed

lemma puerta_delega:
  assumes "authorization req = Some (''Bearer '' @ t @ r)"
    and "t \<noteq> []" and "CHR '' '' \<notin> set t" and "r = [] \<or> hd r = CHR '' ''"
  shows "verificarToken jwt_verify req =
           (case jwt_verify t of
              Inl name \<Rightarrow> Respuesta 401 (mensaje_error name) IniciaSesionNuevamente
            | Inr dec \<Rightarrow>
                Next (req\<lparr>user := Some \<lparr>u_cliente_id = d_cliente_id dec, u_id = d_cliente_id dec,
                                         u_email = d_email dec, u_nombre = d_nombre dec\<rparr>\<rparr>))"
proof -
  let ?h = "''Bearer '' @ t @ r"
  from campos_de_bearer [OF assms(2,3,4)]
  have c0: "elemento (split_espacio ?h) 0 = Some ''Bearer''"
    and c1: "elemento (split_espacio ?h) 1 = Some t" by blast+
  have ne: "?h \<noteq> []" by simp
  show ?thesis
    unfolding verificarToken_def assms(1) option.case if_not_P [OF ne] c1 c0
    using assms(2) by simp
qed

lemma puerta_next:
  assumes "verificarToken jwt_verify req = Next req'"
  shows "\<exists>t dec. jwt_verify t = Inr dec \<and>
           req' = req\<lparr>user := Some \<lparr>u_cliente_id = d_cliente_id dec, u_id = d_cliente_id dec,
                                    u_email = d_email dec, u_nombre = d_nombre dec\<rparr>\<rparr>"
  using assms
  by (auto simp: verificarToken_def split: option.splits if_splits sum.splits)

lemma puerta_401:
  "verificarToken jwt_verify req = Respuesta st m d \<Longrightarrow> st = 401"
  by (auto simp: verificarToken_def split: option.splits if_splits sum.splits)

text \<open>
  C6, as stated, has the gate delegate to token verification whenever the header is
  present and prefixed by the scheme token \<^verbatim>\<open>Bearer\<close>. The header \<^verbatim>\<open>Bearer\<close>
  followed by two spaces and \<^verbatim>\<open>abc\<close>, and the header that is the scheme token alone,
  are both prefixed by it; with a verifier that accepts every token the gate still
  answers 401 with the format message, so it has not delegated: the guard
  \<^verbatim>\<open>|| !token\<close> looks at the second field only, which is empty or missing here.
\<close>

theorem verificarToken_sin_token_contraejemplo:
  "prefix ''Bearer'' ''Bearer  abc'' \<and>
   jwt_acepta ''abc'' = Inr \<lparr>d_cliente_id = Some 7, d_email = None, d_nombre = None\<rparr> \<and>
   verificarToken jwt_acepta \<lparr>authorization = Some ''Bearer  abc'', user = None\<rparr>
     = Respuesta 401 FormatoNoValido ElFormatoDebeSer \<and>
   prefix ''Bearer'' ''Bearer'' \<and>
   verificarToken jwt_acepta \<lparr>authorization = Some ''Bearer'', user = None\<rparr>
     = Respuesta 401 FormatoNoValido ElFormatoDebeSer"
  by (simp add: verificarToken_def elemento_def jwt_acepta_def)

text \<open>
  C6, amended: the gate answers 401 with the missing-header message when the header is
  absent or empty; it answers 401 with the format message when the non-empty header is
  not \<^verbatim>\<open>Bearer\<close>, one space, a non-empty token without spaces, and then nothing or a
  space (that is, when its first space-separated field is not exactly \<^verbatim>\<open>Bearer\<close> or
  its second field is missing or empty); otherwise it hands that token to
  \<^verbatim>\<open>jwt.verify\<close>, answers 401 if the verification throws, and on success calls
  \<^verbatim>\<open>next\<close> with the client identifier of the payload attached to the request as
  \<^verbatim>\<open>req.user\<close>. \<^verbatim>\<open>next\<close> is called only after a successful verification, and every
  answer of the gate itself has status 401.
\<close>

theorem verificarToken_puerta:
  "(authorization req = None \<or> authorization req = Some [] \<longrightarrow>
      verificarToken jwt_verify req = Respuesta 401 FaltaCabecera DebesIncluir) \<and>
   (\<forall>h. authorization req = Some h \<and> h \<noteq> [] \<and>
        (\<forall>t r. h = ''Bearer '' @ t @ r \<longrightarrow>
           t = [] \<or> CHR '' '' \<in> set t \<or> (r \<noteq> [] \<and> hd r \<noteq> CHR '' '')) \<longrightarrow>
      verificarToken jwt_verify req = Respuesta 401 FormatoNoValido ElFormatoDebeSer) \<and>
   (\<forall>t r. authorization req = Some (''Bearer '' @ t @ r) \<and> t \<noteq> [] \<and>
          CHR '' '' \<notin> set t \<and> (r = [] \<or> hd r = CHR '' '') \<longrightarrow>
      verificarToken jwt_verify req =
        (case jwt_verify t of
           Inl name \<Rightarrow> Respuesta 401 (mensaje_error name) IniciaSesionNuevamente
         | Inr dec \<Rightarrow>
             Next (req\<lparr>user := Some \<lparr>u_cliente_id = d_cliente_id dec, u_id = d_cliente_id dec,
                                      u_email = d_email dec, u_nombre = d_nombre dec\<rparr>\<rparr>))) \<and>
   (\<forall>req'. verificarToken jwt_verify req = Next req' \<longrightarrow>
      (\<exists>t dec. jwt_verify t = Inr dec \<and>
         req' = req\<lparr>user := Some \<lparr>u_cliente_id = d_cliente_id dec, u_id = d_cliente_id dec,
                                  u_email = d_email dec, u_nombre = d_nombre dec\<rparr>\<rparr>)) \<and>
   (\<forall>st m d. verificarToken jwt_verify req = Respuesta st m d \<longrightarrow> st = 401)"
proof (intro conjI allI impI)
  assume "authorization req = None \<or> authorization req = Some []"
  then show "verificarToken jwt_verify req = Respuesta 401 FaltaCabecera DebesIncluir"
    by (rule puerta_falta)
next
  fix h
  assume "authorization req = Some h \<and> h \<noteq> [] \<and>
        (\<forall>t r. h = ''Bearer '' @ t @ r \<longrightarrow>
           t = [] \<or> CHR '' '' \<in> set t \<or> (r \<noteq> [] \<and> hd r \<noteq> CHR '' ''))"
  then show "verificarToken jwt_verify req = Respuesta 401 FormatoNoValido ElFormatoDebeSer"
    using puerta_formato [of req h jwt_verify] by blast
next
  fix t r
  assume "authorization req = Some (''Bearer '' @ t @ r) \<and> t \<noteq> [] \<and>
          CHR '' '' \<notin> set t \<and> (r = [] \<or> hd r = CHR '' '')"
  then show "verificarToken jwt_verify req =
        (case jwt_verify t of
           Inl name \<Rightarrow> Respuesta 401 (mensaje_error name) IniciaSesionNuevamente
         | Inr dec \<Rightarrow>
             Next (req\<lparr>user := Some \<lparr>u_cliente_id = d_cliente_id dec, u_id = d_cliente_id dec,
                                      u_email = d_email dec, u_nombre = d_nombre dec\<rparr>\<rparr>))"
    using puerta_delega [of req t r jwt_verify] by blast
next
  fix req'
  assume "verificarToken jwt_verify req = Next req'"
  then show "\<exists>t dec. jwt_verify t = Inr dec \<and>
         req' = req\<lparr>user := Some \<lparr>u_cliente_id = d_cliente_id dec, u_id = d_cliente_id dec,
                                  u_email = d_email dec, u_nombre = d_nombre dec\<rparr>\<rparr>"
    by (rule puerta_next)
next
  fix st m d
  assume "verificarToken jwt_verify req = Respuesta st m d"
  then show "st = 401" by (rule puerta_401)
qed


theorem verificarToken_puerta_witness:
  "verificarToken jwt_ejemplo \<lparr>authorization = None, user = None\<rparr>
     = Respuesta 401 FaltaCabecera DebesIncluir \<and>
   verificarToken jwt_ejemplo \<lparr>authorization = Some ''Basic abc'', user = None\<rparr>
     = Respuesta 401 FormatoNoValido ElFormatoDebeSer \<and>
   verificarToken jwt_ejemplo \<lparr>authorization = Some ''Bearer bueno'', user = None\<rparr>
     = Next \<lparr>authorization = Some ''Bearer bueno'',
             user = Some \<lparr>u_cliente_id = Some 7, u_id = Some 7, u_email = None,
                          u_nombre = None\<rparr>\<rparr> \<and>
   verificarToken jwt_ejemplo \<lparr>authorization = Some ''Bearer roto'', user = None\<rparr>
     = Respuesta 401 TokenMalformado IniciaSesionNuevamente"
proof -
  have ha: "authorization \<lparr>authorization = None, user = None\<rparr> = None \<or>
            authorization \<lparr>authorization = None, user = None\<rparr> = Some []"
    by simp
  have a: "verificarToken jwt_ejemplo \<lparr>authorization = None, user = None\<rparr>
             = Respuesta 401 FaltaCabecera DebesIncluir"
    by (rule verificarToken_puerta [THEN conjunct1, THEN mp, OF ha])
  have hb: "authorization \<lparr>authorization = Some ''Basic abc'', user = None\<rparr>
              = Some ''Basic abc'' \<and> ''Basic abc'' \<noteq> [] \<and>
            (\<forall>t r. ''Basic abc'' = ''Bearer '' @ t @ r \<longrightarrow>
               t = [] \<or> CHR '' '' \<in> set t \<or> (r \<noteq> [] \<and> hd r \<noteq> CHR '' ''))"
    by simp
  have b: "verificarToken jwt_ejemplo \<lparr>authorization = Some ''Basic abc'', user = None\<rparr>
             = Respuesta 401 FormatoNoValido ElFormatoDebeSer"
    by (rule verificarToken_puerta [THEN conjunct2, THEN conjunct1, THEN spec, THEN mp, OF hb])
  have hc: "authorization \<lparr>authorization = Some ''Bearer bueno'', user = None\<rparr>
              = Some (''Bearer '' @ ''bueno'' @ []) \<and> ''bueno'' \<noteq> [] \<and>
            CHR '' '' \<notin> set ''bueno'' \<and> (([] :: string) = [] \<or> hd [] = CHR '' '')"
    by simp
  have c: "verificarToken jwt_ejemplo \<lparr>authorization = Some ''Bearer bueno'', user = None\<rparr>
      = (case jwt_ejemplo ''bueno'' of
           Inl name \<Rightarrow> Respuesta 401 (mensaje_error name) IniciaSesionNuevamente
         | Inr dec \<Rightarrow>
             Next (\<lparr>authorization = Some ''Bearer bueno'', user = None\<rparr>
                    \<lparr>user := Some \<lparr>u_cliente_id = d_cliente_id dec, u_id = d_cliente_id dec,
                                    u_email = d_email dec, u_nombre = d_nombre dec\<rparr>\<rparr>))"
    by (rule verificarToken_puerta
          [THEN conjunct2, THEN conjunct2, THEN conjunct1, THEN spec, THEN spec, THEN mp, OF hc])
  have hd: "authorization \<lparr>authorization = Some ''Bearer roto'', user = None\<rparr>
              = Some (''Bearer '' @ ''roto'' @ []) \<and> ''roto'' \<noteq> [] \<and>
            CHR '' '' \<notin> set ''roto'' \<and> (([] :: string) = [] \<or> hd [] = CHR '' '')"
    by simp
  have d: "verificarToken jwt_ejemplo \<lparr>authorization = Some ''Bearer roto'', user = None\<rparr>
      = (case jwt_ejemplo ''roto'' of
           Inl name \<Rightarrow> Respuesta 401 (mensaje_error name) IniciaSesionNuevamente
         | Inr dec \<Rightarrow>
             Next (\<lparr>authorization = Some ''Bearer roto'', user = None\<rparr>
                    \<lparr>user := Some \<lparr>u_cliente_id = d_cliente_id dec, u_id = d_cliente_id dec,
                                    u_email = d_email dec, u_nombre = d_nombre dec\<rparr>\<rparr>))"
    by (rule verificarToken_puerta
          [THEN conjunct2, THEN conjunct2, THEN conjunct1, THEN spec, THEN spec, THEN mp, OF hd])
  show ?thesis
    unfolding a b c d by (simp add: jwt_ejemplo_def mensaje_error_def)
qed

section \<open>C7: the outcome of token verification\<close>

text \<open>
  C7: for a request that carries the token \<open>t\<close> as \<^verbatim>\<open>Bearer t\<close>, the verification
  step fails with the expired-token message when \<^verbatim>\<open>jwt.verify\<close> reports the token as
  past its expiration (\<^verbatim>\<open>TokenExpiredError\<close>), with the malformed-token message when it
  reports an invalid structure or signature (\<^verbatim>\<open>JsonWebTokenError\<close>), and with the
  not-yet-valid message when it reports an activation time in the future
  (\<^verbatim>\<open>NotBeforeError\<close>); when the verification succeeds, the client identifier embedded
  in the token is what the gate passes on.
\<close>

theorem verificarToken_verify:
  assumes "authorization req = Some (''Bearer '' @ t)" and "t \<noteq> []"
    and "CHR '' '' \<notin> set t"
  shows "(jwt_verify t = Inl ''TokenExpiredError'' \<longrightarrow>
            verificarToken jwt_verify req = Respuesta 401 TokenExpirado IniciaSesionNuevamente) \<and>
         (jwt_verify t = Inl ''JsonWebTokenError'' \<longrightarrow>
            verificarToken jwt_verify req = Respuesta 401 TokenMalformado IniciaSesionNuevamente) \<and>
         (jwt_verify t = Inl ''NotBeforeError'' \<longrightarrow>
            verificarToken jwt_verify req
              = Respuesta 401 TokenNoValidoTodavia IniciaSesionNuevamente) \<and>
         (\<forall>dec. jwt_verify t = Inr dec \<longrightarrow>
            verificarToken jwt_verify req =
              Next (req\<lparr>user := Some \<lparr>u_cliente_id = d_cliente_id dec,
                                       u_id = d_cliente_id dec,
                                       u_email = d_email dec,
                                       u_nombre = d_nombre dec\<rparr>\<rparr>))"
proof -
  have h: "authorization req = Some (''Bearer '' @ t @ [])"
    using assms(1) by simp
  have r: "([] :: string) = [] \<or> hd ([] :: string) = CHR '' ''" by simp
  note d = puerta_delega [OF h assms(2,3) r, of jwt_verify]
  show ?thesis
    by (simp add: d mensaje_error_def)
qed

theorem verificarToken_verify_witness:
  "verificarToken jwt_ejemplo \<lparr>authorization = Some ''Bearer caducado'', user = None\<rparr>
     = Respuesta 401 TokenExpirado IniciaSesionNuevamente \<and>
   verificarToken jwt_ejemplo \<lparr>authorization = Some ''Bearer roto'', user = None\<rparr>
     = Respuesta 401 TokenMalformado IniciaSesionNuevamente \<and>
   verificarToken jwt_ejemplo \<lparr>authorization = Some ''Bearer futuro'', user = None\<rparr>
     = Respuesta 401 TokenNoValidoTodavia IniciaSesionNuevamente \<and>
   verificarToken jwt_ejemplo \<lparr>authorization = Some ''Bearer bueno'', user = None\<rparr>
     = Next \<lparr>authorization = Some ''Bearer bueno'',
             user = Some \<lparr>u_cliente_id = Some 7, u_id = Some 7, u_email = None,
                          u_nombre = None\<rparr>\<rparr>"
proof -
  have a1: "authorization \<lparr>authorization = Some ''Bearer caducado'', user = None\<rparr>
              = Some (''Bearer '' @ ''caducado'')"
    and a2: "''caducado'' \<noteq> []" and a3: "CHR '' '' \<notin> set ''caducado''"
    and a4: "jwt_ejemplo ''caducado'' = Inl ''TokenExpiredError''"
    by (simp_all add: jwt_ejemplo_def)
  have a: "verificarToken jwt_ejemplo \<lparr>authorization = Some ''Bearer caducado'', user = None\<rparr>
     = Respuesta 401 TokenExpirado IniciaSesionNuevamente"
    by (rule verificarToken_verify [OF a1 a2 a3, of jwt_ejemplo, THEN conjunct1, THEN mp, OF a4])
  have b1: "authorization \<lparr>authorization = Some ''Bearer roto'', user = None\<rparr>
              = Some (''Bearer '' @ ''roto'')"
    and b2: "''roto'' \<noteq> []" and b3: "CHR '' '' \<notin> set ''roto''"
    and b4: "jwt_ejemplo ''roto'' = Inl ''JsonWebTokenError''"
    by (simp_all add: jwt_ejemplo_def)
  have b: "verificarToken jwt_ejemplo \<lparr>authorization = Some ''Bearer roto'', user = None\<rparr>
     = Respuesta 401 TokenMalformado IniciaSesionNuevamente"
    by (rule verificarToken_verify
          [OF b1 b2 b3, of jwt_ejemplo, THEN conjunct2, THEN conjunct1, THEN mp, OF b4])
  have c1: "authorization \<lparr>authorization = Some ''Bearer futuro'', user = None\<rparr>
              = Some (''Bearer '' @ ''futuro'')"
    and c2: "''futuro'' \<noteq> []" and c3: "CHR '' '' \<notin> set ''futuro''"
    and c4: "jwt_ejemplo ''futuro'' = Inl ''NotBeforeError''"
    by (simp_all add: jwt_ejemplo_def)
  have c: "verificarToken jwt_ejemplo \<lparr>authorization = Some ''Bearer futuro'', user = None\<rparr>
     = Respuesta 401 TokenNoValidoTodavia IniciaSesionNuevamente"
    by (rule verificarToken_verify
          [OF c1 c2 c3, of jwt_ejemplo, THEN conjunct2, THEN conjunct2, THEN conjunct1, THEN mp, OF c4])
  have d1: "authorization \<lparr>authorization = Some ''Bearer bueno'', user = None\<rparr>
              = Some (''Bearer '' @ ''bueno'')"
    and d2: "''bueno'' \<noteq> []" and d3: "CHR '' '' \<notin> set ''bueno''"
    and d4: "jwt_ejemplo ''bueno''
               = Inr \<lparr>d_cliente_id = Some 7, d_email = None, d_nombre = None\<rparr>"
    by (simp_all add: jwt_ejemplo_def)
  have d: "verificarToken jwt_ejemplo \<lparr>authorization = Some ''Bearer bueno'', user = None\<rparr>
     = Next (\<lparr>authorization = Some ''Bearer bueno'', user = None\<rparr>
        \<lparr>user := Some \<lparr>u_cliente_id = d_cliente_id
                                        \<lparr>d_cliente_id = Some 7, d_email = None, d_nombre = None\<rparr>,
                        u_id = d_cliente_id 
                                        \<lparr>d_cliente_id = Some 7, d_email = None, d_nombre = None\<rparr>,
                        u_email = d_email 
                                        \<lparr>d_cliente_id = Some 7, d_email = None, d_nombre = None\<rparr>,
                        u_nombre = d_nombre
                                        \<lparr>d_cliente_id = Some 7, d_email = None, d_nombre = None\<rparr>\<rparr>\<rparr>)"
    by (rule verificarToken_verify
          [OF d1 d2 d3, of jwt_ejemplo, THEN conjunct2, THEN conjunct2, THEN conjunct2, THEN spec, THEN mp,
           OF d4])
  show ?thesis
    unfolding a b c d by simp
qed

section \<open>C8: login and the two ways of failing\<close>

text \<open>
  C8 asks that a login attempt with an email that has no account and one with an
  existing email and a wrong secret get the same answer. \<^verbatim>\<open>login\<close> answers an unknown
  email before it looks at the password, and hands the password of a known email to
  \<^verbatim>\<open>bcrypt.compare\<close> unchecked; a throw of the comparison goes to the \<^verbatim>\<open>catch\<close>
  block. With the example account table, the body without a password field is answered
  401 with \<^verbatim>\<open>Email o password incorrectos\<close> for the unknown \<^verbatim>\<open>nadie@x.com\<close>, and 500
  with \<^verbatim>\<open>Error interno del servidor\<close> for the registered \<^verbatim>\<open>ana@x.com\<close>.
\<close>

theorem login_sin_password_distingue:
  "login buscar_ejemplo compare_ejemplo sign_ejemplo ''nadie@x.com'' None
     = \<lparr>res_status = 401, res_success = False,
        res_message = ''Email o password incorrectos'',
        res_token = None, res_usuario = None\<rparr> \<and>
   login buscar_ejemplo compare_ejemplo sign_ejemplo ''ana@x.com'' None
     = \<lparr>res_status = 500, res_success = False,
        res_message = ''Error interno del servidor'',
        res_token = None, res_usuario = None\<rparr>"
  by (simp add: login_def buscar_ejemplo_def compare_ejemplo_def)

text \<open>
  The same for any account table and any comparison: whenever the comparison throws for
  the password sent, a known email is answered 500 and an unknown one 401.
\<close>

lemma login_comparacion_lanza:
  assumes "buscarPorEmail email1 = Inr None"
    and "buscarPorEmail email2 = Inr (Some usr)"
    and "bcrypt_compare password (cl_password usr) = Inl x"
  shows "res_status (login buscarPorEmail bcrypt_compare jwt_sign email1 password) = 401 \<and>
         res_status (login buscarPorEmail bcrypt_compare jwt_sign email2 password) = 500"
  using assms by (simp add: login_def)

text \<open>
  When the comparison completes and says no, the two failures are answered alike: the
  source writes the same 401 body in both branches.
\<close>

lemma login_mismo_rechazo:
  assumes "buscarPorEmail email1 = Inr None"
    and "buscarPorEmail email2 = Inr (Some usr)"
    and "bcrypt_compare password2 (cl_password usr) = Inr False"
  shows "login buscarPorEmail bcrypt_compare jwt_sign email1 password1
           = login buscarPorEmail bcrypt_compare jwt_sign email2 password2 \<and>
         login buscarPorEmail bcrypt_compare jwt_sign email1 password1
           = \<lparr>res_status = 401, res_success = False,
              res_message = ''Email o password incorrectos'',
              res_token = None, res_usuario = None\<rparr>"
  using assms by (simp add: login_def)

section \<open>C10: the cart invariant and non-positive quantities\<close>

text \<open>
  C10 asks that, from the empty cart, every sequence of cart operations leaves each item
  with a quantity of at least 1. \<^verbatim>\<open>agregarAlCarrito\<close> compares the quantity with the
  stock only from above: in the logged-in example state, adding 0 units of product 1 puts
  an item of quantity 0 into the empty cart, and adding 2 units and then -3 units leaves
  an item of quantity -1.
\<close>

theorem agregarAlCarrito_cantidad_no_positiva:
  "carrito (ejecutar estado_ejemplo [Agregar 1 0])
     = [\<lparr>it_id = 1, it_nombre = ''Camiseta'', it_precio = 1999, it_cantidad = 0,
         it_stock = 5\<rparr>] \<and>
   carrito (ejecutar estado_ejemplo [Agregar 1 2, Agregar 1 (- 3)])
     = [\<lparr>it_id = 1, it_nombre = ''Camiseta'', it_precio = 1999, it_cantidad = - 1,
         it_stock = 5\<rparr>]"
  by (simp add: ejecutar_def agregarAlCarrito_def estaLogueado_def estado_ejemplo_def)

text \<open>
  The lower bound is the only gap. When every \<^verbatim>\<open>agregarAlCarrito\<close> of the sequence is
  called with a quantity of at least 1 (as \<^verbatim>\<open>cambiarCantidad\<close> enforces for itself by
  removing the item), the invariant holds after every sequence that starts from the empty
  cart.
\<close>

lemma set_fijar_cantidad:
  "x \<in> set (fijar_cantidad i n c) \<Longrightarrow>
   x \<in> set c \<or> (\<exists>y \<in> set c. it_id y = i \<and> x = y\<lparr>it_cantidad := n\<rparr>)"
  by (induction c) (auto split: if_splits)

lemma ids_fijar_cantidad: "map it_id (fijar_cantidad i n c) = map it_id c"
  by (induction c) auto

lemma set_quitar_primero: "x \<in> set (quitar_primero i c) \<Longrightarrow> x \<in> set c"
  by (induction c) (auto split: if_splits)

lemma distinct_quitar_primero:
  "distinct (map it_id c) \<Longrightarrow> distinct (map it_id (quitar_primero i c))"
  by (induction c) (auto dest: set_quitar_primero)

lemma find_SomeD: "find P xs = Some x \<Longrightarrow> P x \<and> x \<in> set xs"
  by (induction xs) (auto split: if_splits)

lemma find_NoneD: "find P xs = None \<Longrightarrow> x \<in> set xs \<Longrightarrow> \<not> P x"
  by (induction xs) (auto split: if_splits)

lemma carrito_inv_fijar:
  assumes inv: "carrito_inv s"
    and lo: "1 \<le> n"
    and hi: "\<And>y. y \<in> set (carrito s) \<Longrightarrow> it_id y = i \<Longrightarrow> n \<le> it_stock y"
  shows "carrito_inv (s\<lparr>carrito := fijar_cantidad i n (carrito s)\<rparr>)"
  unfolding carrito_inv_def
proof (rule conjI [OF ballI])
  fix x
  assume "x \<in> set (carrito (s\<lparr>carrito := fijar_cantidad i n (carrito s)\<rparr>))"
  then have "x \<in> set (fijar_cantidad i n (carrito s))" by simp
  then consider "x \<in> set (carrito s)"
    | y where "y \<in> set (carrito s)" "it_id y = i" "x = y\<lparr>it_cantidad := n\<rparr>"
    using set_fijar_cantidad by blast
  then show "1 \<le> it_cantidad x \<and> it_cantidad x \<le> it_stock x \<and>
        (\<exists>p. find (\<lambda>p. pr_id p = it_id x)
               (productos (s\<lparr>carrito := fijar_cantidad i n (carrito s)\<rparr>)) = Some p \<and>
             pr_stock p = it_stock x)"
  proof cases
    case 1
    with inv show ?thesis by (simp add: carrito_inv_def)
  next
    case 2
    from inv 2(1) obtain p where
      "find (\<lambda>p. pr_id p = it_id y) (productos s) = Some p" "pr_stock p = it_stock y"
      by (auto simp: carrito_inv_def)
    with 2 lo hi [of y] show ?thesis by simp
  qed
next
  show "distinct (map it_id (carrito (s\<lparr>carrito := fijar_cantidad i n (carrito s)\<rparr>)))"
    using inv by (simp add: carrito_inv_def ids_fijar_cantidad)
qed

lemma carrito_inv_quitar: "carrito_inv s \<Longrightarrow> carrito_inv (quitarDelCarrito s i)"
  by (auto simp: carrito_inv_def quitarDelCarrito_def distinct_quitar_primero
      dest: set_quitar_primero)

lemma mismo_stock:
  assumes "carrito_inv s" and "y \<in> set (carrito s)" and "z \<in> set (carrito s)"
    and "it_id y = it_id z"
  shows "it_stock y = it_stock z"
proof -
  from assms(1,2) obtain p where
    p: "find (\<lambda>p. pr_id p = it_id y) (productos s) = Some p" "pr_stock p = it_stock y"
    by (auto simp: carrito_inv_def)
  from assms(1,3) obtain q where
    q: "find (\<lambda>p. pr_id p = it_id z) (productos s) = Some q" "pr_stock q = it_stock z"
    by (auto simp: carrito_inv_def)
  from p(1) q(1) assms(4) have "p = q" by simp
  with p(2) q(2) show ?thesis by simp
qed

lemma carrito_inv_cambiar: "carrito_inv s \<Longrightarrow> carrito_inv (cambiarCantidad s i n)"
proof -
  assume inv: "carrito_inv s"
  show ?thesis
  proof (cases "n < 1")
    case True
    with inv show ?thesis by (simp add: cambiarCantidad_def carrito_inv_quitar)
  next
    case False
    show ?thesis
    proof (cases "find (\<lambda>item. it_id item = i) (carrito s)")
      case None
      with False inv show ?thesis by (simp add: cambiarCantidad_def)
    next
      case (Some e)
      then have e: "it_id e = i" "e \<in> set (carrito s)" by (auto dest: find_SomeD)
      show ?thesis
      proof (cases "n > it_stock e")
        case True
        with False Some inv show ?thesis by (simp add: cambiarCantidad_def)
      next
        case le: False
        have "carrito_inv (s\<lparr>carrito := fijar_cantidad i n (carrito s)\<rparr>)"
        proof (rule carrito_inv_fijar [OF inv])
          show "1 \<le> n" using False by simp
        next
          fix y assume "y \<in> set (carrito s)" "it_id y = i"
          with mismo_stock [OF inv _ e(2), of y] e(1) have "it_stock y = it_stock e" by simp
          with le show "n \<le> it_stock y" by simp
        qed
        with False Some le show ?thesis by (simp add: cambiarCantidad_def)
      qed
    qed
  qed
qed

lemma carrito_inv_agregar:
  assumes inv: "carrito_inv s" and pos: "1 \<le> n"
  shows "carrito_inv (agregarAlCarrito s i n)"
proof (cases "estaLogueado s")
  case False
  with inv show ?thesis by (simp add: agregarAlCarrito_def)
next
  case True
  show ?thesis
  proof (cases "find (\<lambda>p. pr_id p = i) (productos s)")
    case None
    with True inv show ?thesis by (simp add: agregarAlCarrito_def)
  next
    case (Some pr)
    then have pr: "pr_id pr = i" by (auto dest: find_SomeD)
    show ?thesis
    proof (cases "pr_stock pr < n")
      case True
      with \<open>estaLogueado s\<close> Some inv show ?thesis by (simp add: agregarAlCarrito_def)
    next
      case cabe: False
      show ?thesis
      proof (cases "find (\<lambda>item. it_id item = i) (carrito s)")
        case None
        then have nuevo: "\<forall>y \<in> set (carrito s). it_id y \<noteq> i"
          by (auto dest: find_NoneD)
        have "carrito_inv (s\<lparr>carrito := carrito s @
                 [\<lparr>it_id = pr_id pr, it_nombre = pr_nombre pr, it_precio = pr_precio pr,
                   it_cantidad = n, it_stock = pr_stock pr\<rparr>]\<rparr>)"
          using inv pos cabe Some pr nuevo
          by (auto simp: carrito_inv_def)
        with True Some cabe None show ?thesis by (simp add: agregarAlCarrito_def)
      next
        case (Some e)
        then have e: "it_id e = i" "e \<in> set (carrito s)" by (auto dest: find_SomeD)
        let ?m = "it_cantidad e + n"
        show ?thesis
        proof (cases "?m > pr_stock pr")
          case True
          with \<open>estaLogueado s\<close> \<open>find (\<lambda>p. pr_id p = i) (productos s) = Some pr\<close> cabe Some inv
          show ?thesis by (simp add: agregarAlCarrito_def)
        next
          case le: False
          have "carrito_inv (s\<lparr>carrito := fijar_cantidad i ?m (carrito s)\<rparr>)"
          proof (rule carrito_inv_fijar [OF inv])
            have "1 \<le> it_cantidad e" using inv e(2) by (simp add: carrito_inv_def)
            with pos show "1 \<le> ?m" by simp
          next
            fix y assume y: "y \<in> set (carrito s)" "it_id y = i"
            from inv y(1) obtain p where
              "find (\<lambda>p. pr_id p = it_id y) (productos s) = Some p" "pr_stock p = it_stock y"
              by (auto simp: carrito_inv_def)
            with y(2) \<open>find (\<lambda>p. pr_id p = i) (productos s) = Some pr\<close>
            have "it_stock y = pr_stock pr" by simp
            with le show "?m \<le> it_stock y" by simp
          qed
          with \<open>estaLogueado s\<close> \<open>find (\<lambda>p. pr_id p = i) (productos s) = Some pr\<close> cabe Some le
          show ?thesis by (simp add: agregarAlCarrito_def Let_def)
        qed
      qed
    qed
  qed
qed

lemma carrito_inv_aplicar:
  "carrito_inv s \<Longrightarrow> cantidad_positiva op \<Longrightarrow> carrito_inv (aplicar s op)"
  by (cases op)
    (simp_all add: cantidad_positiva_def carrito_inv_agregar carrito_inv_cambiar
      carrito_inv_quitar)

lemma carrito_inv_ejecutar:
  "carrito_inv s \<Longrightarrow> \<forall>op \<in> set ops. cantidad_positiva op \<Longrightarrow> carrito_inv (ejecutar s ops)"
  unfolding ejecutar_def
  by (induction ops arbitrary: s) (simp_all add: carrito_inv_aplicar)

lemma carrito_ok_con_cantidades_positivas:
  assumes "carrito s = []" and "\<forall>op \<in> set ops. cantidad_positiva op"
  shows "carrito_ok (ejecutar s ops)"
proof -
  have "carrito_inv s" using assms(1) by (simp add: carrito_inv_def)
  then have "carrito_inv (ejecutar s ops)" using assms(2) by (rule carrito_inv_ejecutar)
  then show ?thesis by (auto simp: carrito_inv_def carrito_ok_def)
qed

end
